theory Spec2Isabelle
  imports Main
begin

section \<open>The microplate record type of \<open>src/microplate/microplate.py\<close>\<close>

text \<open>
  The development follows \<open>src/microplate/microplate.py\<close>, the version of the class that
  has \<open>add_samples\<close>. In \<open>src/microplate.py\<close> the grid generation of
  \<open>__post_init__\<close>, the uniformity check and \<open>print_matrix\<close> are the same text.

  Modelling decisions:
  \<^item> A Python \<open>str\<close> is a list of Unicode code points (\<open>nat\<close>), because \<open>chr\<close> reaches
    beyond one byte; \<open>lit\<close> turns an ASCII literal into such a list.
  \<^item> The fields \<open>rows\<close> and \<open>cols\<close> are natural numbers: zero is kept, negative
    dimensions are outside the model.
  \<^item> A cell of a column is Python's \<open>None\<close>, pandas' \<open>NaN\<close> or a string: both are null
    for pandas, but \<open>print_matrix\<close> tests \<open>is not None\<close>. A column of a table given
    as source carries its pandas dtype, on which \<open>pd.merge\<close> and \<open>fillna\<close> depend.
  \<^item> Printing appends lines to an output list that every operation returns.
\<close>

subsection \<open>Strings, errors and outcomes\<close>

type_synonym pystr = "nat list"

text \<open>A cell of a data-frame column; \<open>isna\<close> is pandas' test for null.\<close>

datatype cell = PyNone | NaN | Str pystr

definition isna :: "cell \<Rightarrow> bool" where
  "isna x = (case x of Str s \<Rightarrow> False | _ \<Rightarrow> True)"

definition lit :: "string \<Rightarrow> pystr" where
  "lit s = map of_char s"

datatype error = ValueError string | KeyError string

datatype outcome = Returned | Raised error

text \<open>\<open>chr(i)\<close>: the one-character string of code point \<open>i\<close>; raises outside \<open>range(0x110000)\<close>.\<close>

definition chr :: "nat \<Rightarrow> error + nat" where
  "chr i = (if i < 1114112 then Inr i else Inl (ValueError ''chr() arg not in range(0x110000)''))"

text \<open>The decimal digits of a natural number, as \<open>str(n)\<close> and \<open>f"{n}"\<close> give them.\<close>

fun str :: "nat \<Rightarrow> pystr" where
  "str n = (if n < 10 then [48 + n] else str (n div 10) @ [48 + n mod 10])"

declare str.simps [simp del]

text \<open>\<open>f"{x}"\<close> of an optional string: \<open>None\<close> prints as the word None.\<close>

definition fmt_opt :: "pystr option \<Rightarrow> pystr" where
  "fmt_opt x = (case x of None \<Rightarrow> lit ''None'' | Some s \<Rightarrow> s)"

text \<open>
  \<open>f"{s:^w}"\<close>: the format width is a minimum. A shorter text gets \<open>(w - len) // 2\<close>
  spaces on the left and the rest on the right; a text of \<open>w\<close> characters or more is
  emitted as it is.
\<close>

definition center :: "pystr \<Rightarrow> nat \<Rightarrow> pystr" where
  "center s w =
     (if w \<le> length s then s
      else replicate ((w - length s) div 2) 32 @ s
           @ replicate ((w - length s) - (w - length s) div 2) 32)"

text \<open>\<open>sep.join(xs)\<close>.\<close>

fun join :: "pystr \<Rightarrow> pystr list \<Rightarrow> pystr" where
  "join sep [] = []"
| "join sep [x] = x"
| "join sep (x # y # ys) = x @ sep @ join sep (y # ys)"

subsection \<open>The data model\<close>

text \<open>One row of the data frame \<open>self.df\<close>.\<close>

record well =
  plate_name :: "pystr option"
  plate_id :: "pystr option"
  well_index :: pystr
  row :: pystr
  column :: nat
  sample_id :: cell

text \<open>
  The dtype of a column that holds such cells: \<open>object\<close> (any cell), the \<open>str\<close> dtype
  that newer pandas infers for strings (strings and \<open>NaN\<close>), or \<open>float64\<close> (a column
  of \<open>NaN\<close> only).
\<close>

datatype dtype = ObjectDtype | StringDtype | Float64Dtype

text \<open>
  A pandas table given as source: its columns in order, each a name with its dtype and
  its cells. All columns of a data frame have the same length.
\<close>

type_synonym table = "(pystr \<times> dtype \<times> cell list) list"

text \<open>The argument \<open>sample_ids\<close>: \<open>None\<close>, a \<open>dict\<close>, a \<open>DataFrame\<close>, or any other value.\<close>

datatype source = Absent | Dict "pystr \<rightharpoonup> pystr" | DataFrame table | Other

record microplate =
  rows :: nat
  cols :: nat
  name :: "pystr option"
  ident :: "pystr option"
  sample_ids :: source
  df :: "well list"

subsection \<open>Grid generation\<close>

text \<open>
  The body of the inner loop appends to \<open>well_indexes\<close>, \<open>rows\<close> and \<open>cols\<close> in
  lockstep; the model keeps the three lists as one list of triples.
\<close>

type_synonym entry = "pystr \<times> pystr \<times> nat"

fun row_loop :: "nat \<Rightarrow> nat list \<Rightarrow> entry list \<Rightarrow> error + entry list" where
  "row_loop col [] acc = Inr acc"
| "row_loop col (r # rest) acc =
     (case chr (65 + r) of
        Inl e \<Rightarrow> Inl e
      | Inr row_letter \<Rightarrow>
          row_loop col rest (acc @ [(row_letter # str col, [row_letter], col)]))"

fun col_loop :: "nat list \<Rightarrow> nat \<Rightarrow> entry list \<Rightarrow> error + entry list" where
  "col_loop [] nrows acc = Inr acc"
| "col_loop (col # rest) nrows acc =
     (case row_loop col [0..<nrows] acc of
        Inl e \<Rightarrow> Inl e
      | Inr acc' \<Rightarrow> col_loop rest nrows acc')"

text \<open>
  \<open>pd.DataFrame({...})\<close>: the columns must have one length; the scalar \<open>None\<close> of
  \<open>sample_id\<close> is broadcast.
\<close>

definition base_frame :: "pystr option list \<Rightarrow> pystr option list \<Rightarrow> entry list \<Rightarrow> error + well list" where
  "base_frame names ids entries =
     (if length names = length entries \<and> length ids = length entries
      then Inr (map (\<lambda>(n, i, (w, r, c)).
                  \<lparr>plate_name = n, plate_id = i, well_index = w, row = r, column = c,
                   sample_id = PyNone\<rparr>)
                (zip names (zip ids entries)))
      else Inl (ValueError ''All arrays must be of the same length''))"

subsection \<open>add_samples\<close>

text \<open>The dictionary branch: the wells whose index is a key get the mapped value.\<close>

definition assign_dict :: "(pystr \<rightharpoonup> pystr) \<Rightarrow> well list \<Rightarrow> well list" where
  "assign_dict m ws =
     map (\<lambda>w. case m (well_index w) of None \<Rightarrow> w | Some v \<Rightarrow> w\<lparr>sample_id := Str v\<rparr>) ws"

text \<open>
  \<open>pd.merge(self.df, sample_ids[['well_index', 'sample_id']], on='well_index',
  how='left', suffixes=('', '_new'))\<close>: the wells in their order, each once for every source
  row with its key, in the order of the source, or once with \<open>NaN\<close> as \<open>sample_id_new\<close>
  when no source row has its key.
\<close>

definition merge_left :: "well list \<Rightarrow> (cell \<times> cell) list \<Rightarrow> (well \<times> cell) list" where
  "merge_left ws src =
     concat (map (\<lambda>w. case filter (\<lambda>r. fst r = Str (well_index w)) src of
                          [] \<Rightarrow> [(w, NaN)]
                        | ms \<Rightarrow> map (\<lambda>r. (w, snd r)) ms) ws)"

text \<open>
  What a null position of \<open>sample_id_new\<close> takes from the old column: the old cell,
  except that a column of the \<open>str\<close> dtype stores every null as \<open>NaN\<close>.
\<close>

definition fill_from :: "dtype \<Rightarrow> cell \<Rightarrow> cell" where
  "fill_from d old = (if d = StringDtype \<and> isna old then NaN else old)"

text \<open>
  \<open>self.df['sample_id'] = self.df['sample_id_new'].fillna(self.df['sample_id'])\<close>,
  then the column \<open>sample_id_new\<close> is dropped. The dtype is that of the source's
  \<open>sample_id\<close> column.
\<close>

definition fillna_new :: "dtype \<Rightarrow> (well \<times> cell) list \<Rightarrow> well list" where
  "fillna_new d ms =
     map (\<lambda>(w, new). w\<lparr>sample_id := (if isna new then fill_from d (sample_id w) else new)\<rparr>) ms"

text \<open>
  \<open>add_samples\<close>: the outcome, the plate after the call and the lines printed.
  \<open>pd.merge\<close> refuses to join the string keys of the plate with a \<open>float64\<close> key
  column and raises before \<open>self.df\<close> is assigned.
\<close>

fun add_samples :: "source \<Rightarrow> microplate \<Rightarrow> outcome \<times> microplate \<times> pystr list" where
  "add_samples Absent self = (Returned, self, [lit ''No samples provided.''])"
| "add_samples (Dict m) self = (Returned, self\<lparr>df := assign_dict m (df self)\<rparr>, [])"
| "add_samples (DataFrame t) self =
     (if lit ''well_index'' \<notin> set (map fst t) \<or> lit ''sample_id'' \<notin> set (map fst t)
      then (Raised (ValueError ''DataFrame must have 'well_index' and 'sample_id' columns.''),
            self, [])
      else case map_of t (lit ''well_index'') of
             None \<Rightarrow> (Raised (KeyError ''well_index''), self, [])
           | Some (kd, ks) \<Rightarrow>
              (case map_of t (lit ''sample_id'') of
                 None \<Rightarrow> (Raised (KeyError ''sample_id''), self, [])
               | Some (vd, vs) \<Rightarrow>
                  if kd = Float64Dtype
                  then (Raised (ValueError ''You are trying to merge on str and float64 columns''),
                        self, [])
                  else (Returned,
                        self\<lparr>df := fillna_new vd (merge_left (df self) (zip ks vs))\<rparr>, [])))"
| "add_samples Other self =
     (Returned, self, [lit ''Invalid input type. Expected a dictionary or DataFrame.''])"

subsection \<open>Construction\<close>

text \<open>
  The first part of \<open>__post_init__\<close>: the two loops and the base data frame, whose
  columns \<open>plate_name\<close> and \<open>plate_id\<close> repeat the constructor's arguments
  \<open>rows * cols\<close> times.
\<close>

definition make_frame :: "nat \<Rightarrow> nat \<Rightarrow> pystr option \<Rightarrow> pystr option \<Rightarrow> error + well list" where
  "make_frame r c pname pid =
     (case col_loop [1..<c + 1] r [] of
        Inl e \<Rightarrow> Inl e
      | Inr entries \<Rightarrow> base_frame (replicate (r * c) pname) (replicate (r * c) pid) entries)"

text \<open>
  The last part: \<open>len(self.df['plate_name'].unique()) > 1\<close> and the same for
  \<open>plate_id\<close>; \<open>None\<close> when neither test raises.
\<close>

definition check_uniform :: "well list \<Rightarrow> error option" where
  "check_uniform ws =
     (if 1 < length (remdups (map plate_name ws))
      then Some (ValueError ''Plate name must be consistent across all wells'')
      else if 1 < length (remdups (map plate_id ws))
      then Some (ValueError ''Plate ID must be consistent across all wells'')
      else None)"

text \<open>
  \<open>__post_init__\<close>: the result is the plate, or the error that aborts the construction,
  with the lines printed on the way.
\<close>

definition post_init ::
  "nat \<Rightarrow> nat \<Rightarrow> pystr option \<Rightarrow> pystr option \<Rightarrow> source \<Rightarrow> (error + microplate) \<times> pystr list" where
  "post_init r c pname pid src =
     (case make_frame r c pname pid of
        Inl e \<Rightarrow> (Inl e, [])
      | Inr frame \<Rightarrow>
         (case add_samples src
                 \<lparr>rows = r, cols = c, name = pname, ident = pid, sample_ids = src,
                  df = frame\<rparr> of
            (Raised e, self, out) \<Rightarrow> (Inl e, out)
          | (Returned, self, out) \<Rightarrow>
              (case check_uniform (df self) of
                 Some e \<Rightarrow> (Inl e, out)
               | None \<Rightarrow> (Inr self, out))))"

subsection \<open>print_matrix\<close>

text \<open>
  \<open>values.reshape(self.rows, self.cols)\<close>: numpy fills the matrix in C order, row after
  row, and raises when the size is not \<open>rows * cols\<close>.
\<close>

definition reshape :: "'a list \<Rightarrow> nat \<Rightarrow> nat \<Rightarrow> error + 'a list list" where
  "reshape xs r c =
     (if length xs = r * c then Inr (map (\<lambda>i. take c (drop (i * c) xs)) [0..<r])
      else Inl (ValueError ''cannot reshape array''))"

text \<open>
  One cell of a data line: \<open>f"{str(x):^10}" if x is not None else "    -     "\<close>.
  \<open>NaN\<close> is not \<open>None\<close>, and \<open>str\<close> of it is \<open>nan\<close>.
\<close>

definition cell_field :: "cell \<Rightarrow> pystr" where
  "cell_field x =
     (case x of
        PyNone \<Rightarrow> lit ''    -     ''
      | NaN \<Rightarrow> center (lit ''nan'') 10
      | Str s \<Rightarrow> center s 10)"

definition row_line :: "nat \<Rightarrow> cell list \<Rightarrow> pystr" where
  "row_line row_letter xs = [row_letter] @ lit ''  '' @ join (lit '' '') (map cell_field xs)"

fun print_rows :: "(nat \<times> cell list) list \<Rightarrow> pystr list \<Rightarrow> outcome \<times> pystr list" where
  "print_rows [] out = (Returned, out)"
| "print_rows ((i, xs) # rest) out =
     (case chr (65 + i) of
        Inl e \<Rightarrow> (Raised e, out)
      | Inr row_letter \<Rightarrow> print_rows rest (out @ [row_line row_letter xs]))"

definition header_line :: "nat \<Rightarrow> pystr" where
  "header_line c = lit ''   '' @ join (lit '' '') (map (\<lambda>i. center (str i) 10) [1..<c + 1])"

definition print_matrix :: "microplate \<Rightarrow> outcome \<times> pystr list" where
  "print_matrix self =
     (case reshape (map sample_id (df self)) (rows self) (cols self) of
        Inl e \<Rightarrow> (Raised e, [])
      | Inr matrix \<Rightarrow>
          print_rows (zip [0..<length matrix] matrix)
            [lit ''Plate Name: '' @ fmt_opt (name self),
             lit ''Plate ID: '' @ fmt_opt (ident self),
             header_line (cols self)])"

subsection \<open>Notions used in the statements\<close>

text \<open>The triple that the body of the inner loop appends for column \<open>col\<close> and row \<open>r\<close>.\<close>

definition grid_entry :: "nat \<Rightarrow> nat \<Rightarrow> entry" where
  "grid_entry col r = ((65 + r) # str col, [65 + r], col)"

text \<open>The fresh well record of a pair of a 1-based column number and a 0-based row index.\<close>

definition grid_well :: "pystr option \<Rightarrow> pystr option \<Rightarrow> nat \<times> nat \<Rightarrow> well" where
  "grid_well pname pid p =
     \<lparr>plate_name = pname, plate_id = pid, well_index = (65 + snd p) # str (fst p),
      row = [65 + snd p], column = fst p, sample_id = PyNone\<rparr>"

text \<open>
  The tabular branch well by well, for a source of rows and the dtype of its
  \<open>sample_id\<close> column: a well with a matching row whose \<open>sample_id\<close> is a string takes
  it; a well whose matching row has a null, and a well without a matching row, keeps the
  cell it has, as \<open>fill_from\<close> stores it. Of several matching rows this reading takes the
  first.
\<close>

definition per_well_join :: "dtype \<Rightarrow> (cell \<times> cell) list \<Rightarrow> well \<Rightarrow> well" where
  "per_well_join d src w =
     (case filter (\<lambda>r. fst r = Str (well_index w)) src of
        [] \<Rightarrow> w\<lparr>sample_id := fill_from d (sample_id w)\<rparr>
      | r # _ \<Rightarrow>
          (if isna (snd r) then w\<lparr>sample_id := fill_from d (sample_id w)\<rparr>
           else w\<lparr>sample_id := snd r\<rparr>))"

text \<open>
  The plate of \<open>Microplate(rows=1, cols=3, sample_ids={"A2": "S7", "A3": "S8"})\<close>, and
  tables as \<open>pd.DataFrame\<close> builds them from lists: one with a row for A1, a null row
  for A2 and a row for a well the plate does not have, with \<open>object\<close> columns; the same
  with the \<open>str\<close> dtype; one that lists A1 twice; one whose key column is \<open>NaN\<close> only.
\<close>

definition example_plate :: microplate where
  "example_plate =
     \<lparr>rows = 1, cols = 3, name = None, ident = None,
      sample_ids = Dict [lit ''A2'' \<mapsto> lit ''S7'', lit ''A3'' \<mapsto> lit ''S8''],
      df = [\<lparr>plate_name = None, plate_id = None, well_index = lit ''A1'', row = lit ''A'',
             column = 1, sample_id = PyNone\<rparr>,
            \<lparr>plate_name = None, plate_id = None, well_index = lit ''A2'', row = lit ''A'',
             column = 2, sample_id = Str (lit ''S7'')\<rparr>,
            \<lparr>plate_name = None, plate_id = None, well_index = lit ''A3'', row = lit ''A'',
             column = 3, sample_id = Str (lit ''S8'')\<rparr>]\<rparr>"

definition example_table :: table where
  "example_table =
     [(lit ''well_index'', ObjectDtype,
         [Str (lit ''A1''), Str (lit ''A2''), Str (lit ''Z9'')]),
      (lit ''sample_id'', ObjectDtype, [Str (lit ''S1''), PyNone, Str (lit ''S3'')])]"

definition str_table :: table where
  "str_table =
     [(lit ''well_index'', StringDtype, [Str (lit ''A2''), Str (lit ''A3'')]),
      (lit ''sample_id'', StringDtype, [Str (lit ''S5''), NaN])]"

definition duplicate_table :: table where
  "duplicate_table =
     [(lit ''well_index'', ObjectDtype, [Str (lit ''A1''), Str (lit ''A1'')]),
      (lit ''sample_id'', ObjectDtype, [Str (lit ''S1''), Str (lit ''S2'')])]"

definition float_key_table :: table where
  "float_key_table =
     [(lit ''well_index'', Float64Dtype, [NaN]),
      (lit ''sample_id'', ObjectDtype, [Str (lit ''S1'')])]"

section \<open>Properties\<close>

subsection \<open>What add_samples leaves alone\<close>

lemma assign_dict_length: "length (assign_dict m ws) = length ws"
  by (simp add: assign_dict_def)


lemma assign_dict_plate_name: "map plate_name (assign_dict m ws) = map plate_name ws"
  by (simp add: assign_dict_def split: option.splits)

lemma assign_dict_plate_id: "map plate_id (assign_dict m ws) = map plate_id ws"
  by (simp add: assign_dict_def split: option.splits)

lemma merge_left_fst: "fst ` set (merge_left ws src) \<subseteq> set ws"
  by (auto simp: merge_left_def split: list.splits)

lemma fillna_new_plate_name: "plate_name ` set (fillna_new d ms) = plate_name ` fst ` set ms"
  by (force simp: fillna_new_def image_iff)

lemma fillna_new_plate_id: "plate_id ` set (fillna_new d ms) = plate_id ` fst ` set ms"
  by (force simp: fillna_new_def image_iff)

lemma add_samples_plate_name:
  "plate_name ` set (df (fst (snd (add_samples src self)))) \<subseteq> plate_name ` set (df self)"
proof (cases src)
  case (Dict m)
  have "plate_name ` set (assign_dict m (df self)) = set (map plate_name (assign_dict m (df self)))"
    by simp
  with Dict show ?thesis by (simp add: assign_dict_plate_name)
next
  case (DataFrame t)
  have "plate_name ` set (fillna_new d (merge_left (df self) s)) \<subseteq> plate_name ` set (df self)"
    for d s
    using merge_left_fst [of "df self" s] by (auto simp: fillna_new_plate_name)
  with DataFrame show ?thesis by (auto split: option.splits prod.splits)
qed simp_all

lemma add_samples_plate_id:
  "plate_id ` set (df (fst (snd (add_samples src self)))) \<subseteq> plate_id ` set (df self)"
proof (cases src)
  case (Dict m)
  have "plate_id ` set (assign_dict m (df self)) = set (map plate_id (assign_dict m (df self)))"
    by simp
  with Dict show ?thesis by (simp add: assign_dict_plate_id)
next
  case (DataFrame t)
  have "plate_id ` set (fillna_new d (merge_left (df self) s)) \<subseteq> plate_id ` set (df self)"
    for d s
    using merge_left_fst [of "df self" s] by (auto simp: fillna_new_plate_id)
  with DataFrame show ?thesis by (auto split: option.splits prod.splits)
qed simp_all

subsection \<open>The base data frame\<close>

lemma base_frame_plate_name:
  "base_frame names ids entries = Inr frame \<Longrightarrow> map plate_name frame = names"
  by (auto simp: base_frame_def split: if_splits prod.splits intro!: nth_equalityI)

lemma base_frame_plate_id:
  "base_frame names ids entries = Inr frame \<Longrightarrow> map plate_id frame = ids"
  by (auto simp: base_frame_def split: if_splits prod.splits intro!: nth_equalityI)

lemma make_frame_plate_name:
  "make_frame r c pname pid = Inr frame \<Longrightarrow> map plate_name frame = replicate (r * c) pname"
  by (auto simp: make_frame_def split: sum.splits dest: base_frame_plate_name)

lemma make_frame_plate_id:
  "make_frame r c pname pid = Inr frame \<Longrightarrow> map plate_id frame = replicate (r * c) pid"
  by (auto simp: make_frame_def split: sum.splits dest: base_frame_plate_id)

lemma remdups_uniform: "set xs \<subseteq> {a} \<Longrightarrow> \<not> 1 < length (remdups xs)"
proof -
  assume "set xs \<subseteq> {a}"
  then have "card (set xs) \<le> card {a}" by (intro card_mono) simp_all
  then show ?thesis by (simp add: length_remdups_card_conv)
qed

text \<open>The plate with the single well A1, as \<open>Microplate(rows=1, cols=1)\<close> builds it.\<close>

lemma make_frame_1_1:
  "make_frame 1 1 None None =
     Inr [\<lparr>plate_name = None, plate_id = None, well_index = lit ''A1'', row = lit ''A'',
           column = 1, sample_id = PyNone\<rparr>]"
  by (simp add: make_frame_def base_frame_def chr_def str.simps lit_def)

subsection \<open>The uniformity check\<close>

lemma check_uniform_after_add_samples:
  assumes frame: "make_frame r c pname pid = Inr frame"
    and added: "add_samples src \<lparr>rows = r, cols = c, name = pname, ident = pid,
                  sample_ids = src, df = frame\<rparr> = (Returned, self, out)"
  shows "check_uniform (df self) = None"
proof -
  let ?p = "\<lparr>rows = r, cols = c, name = pname, ident = pid, sample_ids = src, df = frame\<rparr>"
  have self: "self = fst (snd (add_samples src ?p))" by (simp add: added)
  have "plate_name ` set frame \<subseteq> {pname}"
    using make_frame_plate_name [OF frame, THEN arg_cong, of set] by auto
  with add_samples_plate_name [of src ?p]
  have "set (map plate_name (df self)) \<subseteq> {pname}" unfolding self by auto
  then have n: "\<not> 1 < length (remdups (map plate_name (df self)))" by (rule remdups_uniform)
  have "plate_id ` set frame \<subseteq> {pid}"
    using make_frame_plate_id [OF frame, THEN arg_cong, of set] by auto
  with add_samples_plate_id [of src ?p]
  have "set (map plate_id (df self)) \<subseteq> {pid}" unfolding self by auto
  then have i: "\<not> 1 < length (remdups (map plate_id (df self)))" by (rule remdups_uniform)
  from n i show ?thesis by (simp add: check_uniform_def)
qed

subsection \<open>Grid generation\<close>



lemma row_loop_ok:
  "\<forall>r\<in>set rs. 65 + r < 1114112 \<Longrightarrow> row_loop col rs acc = Inr (acc @ map (grid_entry col) rs)"
  by (induction rs arbitrary: acc) (simp_all add: chr_def grid_entry_def)


lemma col_loop_ok:
  "n \<le> 1114047 \<Longrightarrow>
   col_loop cs n acc = Inr (acc @ concat (map (\<lambda>col. map (grid_entry col) [0..<n]) cs))"
  by (induction cs arbitrary: acc) (simp_all add: row_loop_ok)


lemma grid_entries_product:
  "concat (map (\<lambda>col. map (grid_entry col) rs) cs) = map (\<lambda>(col, r). grid_entry col r) (List.product cs rs)"
  by (induction cs) simp_all

lemma base_frame_replicate:
  "length entries = n \<Longrightarrow>
   base_frame (replicate n pname) (replicate n pid) entries =
     Inr (map (\<lambda>(w, r, c). \<lparr>plate_name = pname, plate_id = pid, well_index = w, row = r,
                             column = c, sample_id = PyNone\<rparr>) entries)"
  by (auto simp: base_frame_def intro!: nth_equalityI)

lemma make_frame_ok:
  assumes "r \<le> 1114047"
  shows "make_frame r c pname pid = Inr (map (grid_well pname pid) (List.product [1..<c + 1] [0..<r]))"
proof -
  have len: "length (List.product [1..<c + 1] [0..<r]) = r * c" by simp
  show ?thesis
    unfolding make_frame_def col_loop_ok [OF assms] grid_entries_product
    by (simp only: sum.case append_Nil base_frame_replicate length_map len)
       (simp add: grid_well_def grid_entry_def case_prod_beta comp_def)
qed







subsection \<open>The example plate\<close>

lemma make_frame_1_3:
  "make_frame 1 3 pname pid =
     Inr [\<lparr>plate_name = pname, plate_id = pid, well_index = lit ''A1'', row = lit ''A'',
             column = 1, sample_id = PyNone\<rparr>,
            \<lparr>plate_name = pname, plate_id = pid, well_index = lit ''A2'', row = lit ''A'',
             column = 2, sample_id = PyNone\<rparr>,
            \<lparr>plate_name = pname, plate_id = pid, well_index = lit ''A3'', row = lit ''A'',
             column = 3, sample_id = PyNone\<rparr>]"
proof -
  have "(1::nat) \<le> 1114047" by simp
  from make_frame_ok [OF this, of 3 pname pid] show ?thesis
    by (simp add: upt_rec grid_well_def str.simps lit_def)
qed

lemma example_plate_constructed:
  "post_init 1 3 None None (Dict [lit ''A2'' \<mapsto> lit ''S7'', lit ''A3'' \<mapsto> lit ''S8'']) =
     (Inr example_plate, [])"
  unfolding post_init_def make_frame_1_3
  by (simp add: assign_dict_def example_plate_def check_uniform_def lit_def)

subsection \<open>The uniformity check at construction\<close>

text \<open>
  Claim C10. Whenever the grid generation and the initial \<open>add_samples\<close> of
  \<open>__post_init__\<close> complete, neither test of the plate-name and plate-id uniformity check
  raises: both columns repeat one constructor argument and \<open>add_samples\<close> brings in no
  other value, so the construction returns the plate.
\<close>

theorem uniformity_check_never_fires:
  assumes frame: "make_frame r c pname pid = Inr frame"
    and added: "add_samples src \<lparr>rows = r, cols = c, name = pname, ident = pid,
                  sample_ids = src, df = frame\<rparr> = (Returned, self, out)"
  shows "check_uniform (df self) = None \<and> post_init r c pname pid src = (Inr self, out)"
  using check_uniform_after_add_samples [OF assms] by (simp add: post_init_def frame added)

theorem uniformity_check_never_fires_witness:
  "check_uniform
     [\<lparr>plate_name = Some (lit ''P1''), plate_id = Some (lit ''ID1''), well_index = lit ''A1'',
       row = lit ''A'', column = 1, sample_id = Str (lit ''S1'')\<rparr>,
      \<lparr>plate_name = Some (lit ''P1''), plate_id = Some (lit ''ID1''), well_index = lit ''A2'',
       row = lit ''A'', column = 2, sample_id = PyNone\<rparr>,
      \<lparr>plate_name = Some (lit ''P1''), plate_id = Some (lit ''ID1''), well_index = lit ''A3'',
       row = lit ''A'', column = 3, sample_id = PyNone\<rparr>] = None
   \<and> post_init 1 3 (Some (lit ''P1'')) (Some (lit ''ID1'')) (DataFrame example_table) =
       (Inr \<lparr>rows = 1, cols = 3, name = Some (lit ''P1''), ident = Some (lit ''ID1''),
              sample_ids = DataFrame example_table,
              df = [\<lparr>plate_name = Some (lit ''P1''), plate_id = Some (lit ''ID1''),
                     well_index = lit ''A1'', row = lit ''A'', column = 1,
                     sample_id = Str (lit ''S1'')\<rparr>,
                    \<lparr>plate_name = Some (lit ''P1''), plate_id = Some (lit ''ID1''),
                     well_index = lit ''A2'', row = lit ''A'', column = 2,
                     sample_id = PyNone\<rparr>,
                    \<lparr>plate_name = Some (lit ''P1''), plate_id = Some (lit ''ID1''),
                     well_index = lit ''A3'', row = lit ''A'', column = 3,
                     sample_id = PyNone\<rparr>]\<rparr>, [])"
proof -
  let ?n = "Some (lit ''P1'')" and ?i = "Some (lit ''ID1'')"
  let ?after = "[\<lparr>plate_name = ?n, plate_id = ?i, well_index = lit ''A1'',
       row = lit ''A'', column = 1, sample_id = Str (lit ''S1'')\<rparr>,
      \<lparr>plate_name = ?n, plate_id = ?i, well_index = lit ''A2'',
       row = lit ''A'', column = 2, sample_id = PyNone\<rparr>,
      \<lparr>plate_name = ?n, plate_id = ?i, well_index = lit ''A3'',
       row = lit ''A'', column = 3, sample_id = PyNone\<rparr>]"
  have added: "add_samples (DataFrame example_table)
      \<lparr>rows = 1, cols = 3, name = ?n, ident = ?i, sample_ids = DataFrame example_table,
       df = [\<lparr>plate_name = ?n, plate_id = ?i, well_index = lit ''A1'', row = lit ''A'',
              column = 1, sample_id = PyNone\<rparr>,
             \<lparr>plate_name = ?n, plate_id = ?i, well_index = lit ''A2'', row = lit ''A'',
              column = 2, sample_id = PyNone\<rparr>,
             \<lparr>plate_name = ?n, plate_id = ?i, well_index = lit ''A3'', row = lit ''A'',
              column = 3, sample_id = PyNone\<rparr>]\<rparr> =
     (Returned,
      \<lparr>rows = 1, cols = 3, name = ?n, ident = ?i, sample_ids = DataFrame example_table,
       df = ?after\<rparr>, [])"
    by (simp add: example_table_def merge_left_def fillna_new_def fill_from_def isna_def lit_def)
  from uniformity_check_never_fires [OF make_frame_1_3 added] show ?thesis by simp
qed

subsection \<open>add_samples with a dictionary\<close>

lemma assign_dict_nth:
  "i < length ws \<Longrightarrow>
   assign_dict m ws ! i =
     (case m (well_index (ws ! i)) of
        None \<Rightarrow> ws ! i
      | Some v \<Rightarrow> (ws ! i)\<lparr>sample_id := Str v\<rparr>)"
  by (simp add: assign_dict_def)

lemma assign_dict_key:
  "w \<in> set (assign_dict m ws) \<Longrightarrow> m (well_index w) = Some v \<Longrightarrow> sample_id w = Str v"
  by (auto simp: assign_dict_def split: option.splits)

text \<open>
  Claim C3. With a dictionary, \<open>add_samples\<close> returns; every well whose \<open>well_index\<close> is
  a key has the mapped value as its \<open>sample_id\<close>, every other well is the record it was,
  and the wells keep their positions. After \<open>{"A1": "S1"}\<close> and then \<open>{"A1": "S2"}\<close>,
  every well with index A1 has the sample S2.
\<close>

theorem add_samples_dict:
  "fst (add_samples (Dict m) self) = Returned
   \<and> length (df (fst (snd (add_samples (Dict m) self)))) = length (df self)
   \<and> (\<forall>i<length (df self).
        (\<forall>v. m (well_index (df self ! i)) = Some v \<longrightarrow>
           df (fst (snd (add_samples (Dict m) self))) ! i = (df self ! i)\<lparr>sample_id := Str v\<rparr>)
        \<and> (well_index (df self ! i) \<notin> dom m \<longrightarrow>
           df (fst (snd (add_samples (Dict m) self))) ! i = df self ! i))
   \<and> (\<forall>w\<in>set (df (fst (snd (add_samples (Dict [lit ''A1'' \<mapsto> lit ''S2''])
                    (fst (snd (add_samples (Dict [lit ''A1'' \<mapsto> lit ''S1'']) self))))))).
        well_index w = lit ''A1'' \<longrightarrow> sample_id w = Str (lit ''S2''))"
proof -
  have "sample_id w = Str (lit ''S2'')"
    if "w \<in> set (assign_dict [lit ''A1'' \<mapsto> lit ''S2''] ws)" "well_index w = lit ''A1''" for w ws
    using assign_dict_key [OF that(1), of "lit ''S2''"] that(2) by simp
  moreover have "assign_dict m (df self) ! i = df self ! i"
    if "i < length (df self)" "well_index (df self ! i) \<notin> dom m" for i
    using that by (simp add: assign_dict_nth domIff)
  ultimately show ?thesis by (simp add: assign_dict_length assign_dict_nth)
qed

theorem add_samples_dict_witness:
  "fst (add_samples (Dict [lit ''A1'' \<mapsto> lit ''S1'']) example_plate) = Returned
   \<and> length (df (fst (snd (add_samples (Dict [lit ''A1'' \<mapsto> lit ''S1'']) example_plate)))) = 3
   \<and> df (fst (snd (add_samples (Dict [lit ''A1'' \<mapsto> lit ''S1'']) example_plate))) ! 0 =
        \<lparr>plate_name = None, plate_id = None, well_index = lit ''A1'', row = lit ''A'',
         column = 1, sample_id = Str (lit ''S1'')\<rparr>
   \<and> df (fst (snd (add_samples (Dict [lit ''A1'' \<mapsto> lit ''S1'']) example_plate))) ! 1 =
        \<lparr>plate_name = None, plate_id = None, well_index = lit ''A2'', row = lit ''A'',
         column = 2, sample_id = Str (lit ''S7'')\<rparr>
   \<and> sample_id (df (fst (snd (add_samples (Dict [lit ''A1'' \<mapsto> lit ''S2''])
          (fst (snd (add_samples (Dict [lit ''A1'' \<mapsto> lit ''S1'']) example_plate)))))) ! 0) =
        Str (lit ''S2'')"
proof -
  let ?m = "[lit ''A1'' \<mapsto> lit ''S1'']"
  let ?after = "df (fst (snd (add_samples (Dict ?m) example_plate)))"
  let ?twice = "df (fst (snd (add_samples (Dict [lit ''A1'' \<mapsto> lit ''S2''])
                  (fst (snd (add_samples (Dict ?m) example_plate))))))"
  note inst = add_samples_dict [of ?m example_plate]
  have len: "length (df example_plate) = 3" by (simp add: example_plate_def)
  have key: "?m (well_index (df example_plate ! 0)) = Some (lit ''S1'')"
    by (simp add: example_plate_def)
  have nokey: "well_index (df example_plate ! 1) \<notin> dom ?m"
    by (simp add: example_plate_def lit_def)
  from inst have ret: "fst (add_samples (Dict ?m) example_plate) = Returned"
    and same: "length ?after = length (df example_plate)" by blast+
  have l: "0 < length (df example_plate)" "1 < length (df example_plate)"
    by (simp_all add: len)
  from inst key l(1) have a0: "?after ! 0 = (df example_plate ! 0)\<lparr>sample_id := Str (lit ''S1'')\<rparr>"
    by blast
  from inst nokey l(2) have a1: "?after ! 1 = df example_plate ! 1"
    by blast
  from inst have "\<forall>w\<in>set ?twice. well_index w = lit ''A1'' \<longrightarrow> sample_id w = Str (lit ''S2'')"
    by blast
  moreover have "?twice ! 0 \<in> set ?twice" "well_index (?twice ! 0) = lit ''A1''"
    by (simp_all add: example_plate_def assign_dict_def)
  ultimately have t0: "sample_id (?twice ! 0) = Str (lit ''S2'')" by blast
  from ret same len a0 a1 t0 show ?thesis by (simp add: example_plate_def)
qed

subsection \<open>add_samples with a table\<close>

lemma filter_single:
  assumes "x \<in> set xs" "P x" "length (filter P xs) \<le> 1"
  shows "filter P xs = [x]"
proof -
  from assms(1,2) have "x \<in> set (filter P xs)" by simp
  with assms(3) show ?thesis by (cases "filter P xs") auto
qed

lemma fill_from_str: "fill_from d (Str s) = Str s"
  by (simp add: fill_from_def isna_def)

lemma fill_from_null: "isna c \<Longrightarrow> isna (fill_from d c)"
  by (simp add: fill_from_def isna_def)

lemma fill_from_object: "d \<noteq> StringDtype \<Longrightarrow> fill_from d c = c"
  by (simp add: fill_from_def)

lemma fill_from_record: "d \<noteq> StringDtype \<Longrightarrow> w\<lparr>sample_id := fill_from d (sample_id w)\<rparr> = w"
  by (simp add: fill_from_def)

lemma merge_left_single:
  "\<forall>w\<in>set ws. length (filter (\<lambda>r. fst r = Str (well_index w)) src) \<le> 1 \<Longrightarrow>
   fillna_new d (merge_left ws src) = map (per_well_join d src) ws"
proof (induction ws)
  case Nil
  show ?case by (simp add: merge_left_def fillna_new_def)
next
  case (Cons w ws)
  then have IH: "fillna_new d (merge_left ws src) = map (per_well_join d src) ws" by simp
  have split: "merge_left (w # ws) src =
      (case filter (\<lambda>r. fst r = Str (well_index w)) src of
          [] \<Rightarrow> [(w, NaN)] | ms \<Rightarrow> map (\<lambda>r. (w, snd r)) ms) @ merge_left ws src"
    by (simp add: merge_left_def)
  have app: "fillna_new d (xs @ ys) = fillna_new d xs @ fillna_new d ys" for xs ys
    by (simp add: fillna_new_def)
  from Cons.prems have one: "length (filter (\<lambda>r. fst r = Str (well_index w)) src) \<le> 1" by simp
  have "fillna_new d (case filter (\<lambda>r. fst r = Str (well_index w)) src of
          [] \<Rightarrow> [(w, NaN)] | ms \<Rightarrow> map (\<lambda>r. (w, snd r)) ms) = [per_well_join d src w]"
    using one by (auto simp: fillna_new_def per_well_join_def isna_def split: list.splits)
  then show ?case by (simp add: split app IH)
qed

lemma per_well_join_cases:
  assumes "length (filter (\<lambda>r. fst r = Str (well_index w)) src) \<le> 1"
  shows "(Str (well_index w), Str v) \<in> set src \<Longrightarrow> per_well_join d src w = w\<lparr>sample_id := Str v\<rparr>"
    and "(Str (well_index w), c) \<in> set src \<Longrightarrow> isna c \<Longrightarrow>
         per_well_join d src w = w\<lparr>sample_id := fill_from d (sample_id w)\<rparr>"
    and "Str (well_index w) \<notin> fst ` set src \<Longrightarrow>
         per_well_join d src w = w\<lparr>sample_id := fill_from d (sample_id w)\<rparr>"
proof -
  show "per_well_join d src w = w\<lparr>sample_id := Str v\<rparr>" if "(Str (well_index w), Str v) \<in> set src"
    using filter_single [OF that _ assms] by (simp add: per_well_join_def isna_def)
  show "per_well_join d src w = w\<lparr>sample_id := fill_from d (sample_id w)\<rparr>"
    if "(Str (well_index w), c) \<in> set src" "isna c"
    using filter_single [OF that(1) _ assms] that(2) by (simp add: per_well_join_def)
  show "per_well_join d src w = w\<lparr>sample_id := fill_from d (sample_id w)\<rparr>"
    if "Str (well_index w) \<notin> fst ` set src"
  proof -
    from that have "filter (\<lambda>r. fst r = Str (well_index w)) src = []"
      by (auto simp: filter_empty_conv image_iff)
    then show ?thesis by (simp add: per_well_join_def)
  qed
qed

text \<open>
  Claim C2, as the code has it. Let the table have both columns, a \<open>well_index\<close> column
  that is not \<open>float64\<close>, and for no well of the plate more than one row. Then
  \<open>add_samples\<close> returns with the wells in their positions. A well with a row whose
  \<open>sample_id\<close> is a string has that string. A well whose row has a null \<open>sample_id\<close>, and
  a well without a row, keeps every other field and keeps its \<open>sample_id\<close> as
  \<open>fill_from\<close> stores it: a string stays the string it was, an unset cell stays unset,
  and unless the source's \<open>sample_id\<close> column has the \<open>str\<close> dtype the well is the very
  record it was.
\<close>

theorem add_samples_table:
  assumes ks: "map_of t (lit ''well_index'') = Some (kd, ks)"
    and kd: "kd \<noteq> Float64Dtype"
    and vs: "map_of t (lit ''sample_id'') = Some (vd, vs)"
    and one: "\<forall>w\<in>set (df self).
               length (filter (\<lambda>r. fst r = Str (well_index w)) (zip ks vs)) \<le> 1"
  shows "fst (add_samples (DataFrame t) self) = Returned
   \<and> length (df (fst (snd (add_samples (DataFrame t) self)))) = length (df self)
   \<and> (\<forall>i<length (df self).
        (\<forall>v. (Str (well_index (df self ! i)), Str v) \<in> set (zip ks vs) \<longrightarrow>
           df (fst (snd (add_samples (DataFrame t) self))) ! i = (df self ! i)\<lparr>sample_id := Str v\<rparr>)
        \<and> (\<forall>c. (Str (well_index (df self ! i)), c) \<in> set (zip ks vs) \<and> isna c \<longrightarrow>
           df (fst (snd (add_samples (DataFrame t) self))) ! i =
             (df self ! i)\<lparr>sample_id := fill_from vd (sample_id (df self ! i))\<rparr>)
        \<and> (Str (well_index (df self ! i)) \<notin> fst ` set (zip ks vs) \<longrightarrow>
           df (fst (snd (add_samples (DataFrame t) self))) ! i =
             (df self ! i)\<lparr>sample_id := fill_from vd (sample_id (df self ! i))\<rparr>))
   \<and> (\<forall>s. fill_from vd (Str s) = Str s)
   \<and> (\<forall>c. isna c \<longrightarrow> isna (fill_from vd c))
   \<and> (vd \<noteq> StringDtype \<longrightarrow> (\<forall>c. fill_from vd c = c))"
proof -
  have cols: "lit ''well_index'' \<in> fst ` set t" "lit ''sample_id'' \<in> fst ` set t"
    using map_of_SomeD [OF ks] map_of_SomeD [OF vs] by force+
  have res: "add_samples (DataFrame t) self =
      (Returned, self\<lparr>df := map (per_well_join vd (zip ks vs)) (df self)\<rparr>, [])"
    using cols kd by (simp add: ks vs merge_left_single [OF one])
  have "length (filter (\<lambda>r. fst r = Str (well_index (df self ! i))) (zip ks vs)) \<le> 1"
    if "i < length (df self)" for i
    using one that by simp
  note j = per_well_join_cases [OF this]
  have each: "(\<forall>v. (Str (well_index (df self ! i)), Str v) \<in> set (zip ks vs) \<longrightarrow>
           map (per_well_join vd (zip ks vs)) (df self) ! i = (df self ! i)\<lparr>sample_id := Str v\<rparr>)
        \<and> (\<forall>c. (Str (well_index (df self ! i)), c) \<in> set (zip ks vs) \<and> isna c \<longrightarrow>
           map (per_well_join vd (zip ks vs)) (df self) ! i =
             (df self ! i)\<lparr>sample_id := fill_from vd (sample_id (df self ! i))\<rparr>)
        \<and> (Str (well_index (df self ! i)) \<notin> fst ` set (zip ks vs) \<longrightarrow>
           map (per_well_join vd (zip ks vs)) (df self) ! i =
             (df self ! i)\<lparr>sample_id := fill_from vd (sample_id (df self ! i))\<rparr>)"
    if i: "i < length (df self)" for i
  proof (intro conjI allI impI)
    fix v assume "(Str (well_index (df self ! i)), Str v) \<in> set (zip ks vs)"
    from j(1) [OF i this] i
    show "map (per_well_join vd (zip ks vs)) (df self) ! i = (df self ! i)\<lparr>sample_id := Str v\<rparr>"
      by simp
  next
    fix c assume "(Str (well_index (df self ! i)), c) \<in> set (zip ks vs) \<and> isna c"
    then have "(Str (well_index (df self ! i)), c) \<in> set (zip ks vs)" "isna c" by simp_all
    from j(2) [OF i this] i
    show "map (per_well_join vd (zip ks vs)) (df self) ! i =
        (df self ! i)\<lparr>sample_id := fill_from vd (sample_id (df self ! i))\<rparr>"
      by simp
  next
    assume "Str (well_index (df self ! i)) \<notin> fst ` set (zip ks vs)"
    from j(3) [OF i this] i
    show "map (per_well_join vd (zip ks vs)) (df self) ! i =
        (df self ! i)\<lparr>sample_id := fill_from vd (sample_id (df self ! i))\<rparr>"
      by simp
  qed
  have fill: "(\<forall>s. fill_from vd (Str s) = Str s) \<and> (\<forall>c. isna c \<longrightarrow> isna (fill_from vd c))
      \<and> (vd \<noteq> StringDtype \<longrightarrow> (\<forall>c. fill_from vd c = c))"
    by (simp add: fill_from_str fill_from_null fill_from_object)
  have after: "df (fst (snd (add_samples (DataFrame t) self))) =
      map (per_well_join vd (zip ks vs)) (df self)"
    and ret: "fst (add_samples (DataFrame t) self) = Returned"
    unfolding res by simp_all
  show ?thesis unfolding after ret using each fill by simp
qed

theorem add_samples_table_witness:
  "fst (add_samples (DataFrame example_table) example_plate) = Returned
   \<and> length (df (fst (snd (add_samples (DataFrame example_table) example_plate)))) = 3
   \<and> df (fst (snd (add_samples (DataFrame example_table) example_plate))) ! 0 =
        \<lparr>plate_name = None, plate_id = None, well_index = lit ''A1'', row = lit ''A'',
         column = 1, sample_id = Str (lit ''S1'')\<rparr>
   \<and> df (fst (snd (add_samples (DataFrame example_table) example_plate))) ! 1 =
        \<lparr>plate_name = None, plate_id = None, well_index = lit ''A2'', row = lit ''A'',
         column = 2, sample_id = Str (lit ''S7'')\<rparr>
   \<and> df (fst (snd (add_samples (DataFrame example_table) example_plate))) ! 2 =
        \<lparr>plate_name = None, plate_id = None, well_index = lit ''A3'', row = lit ''A'',
         column = 3, sample_id = Str (lit ''S8'')\<rparr>"
proof -
  let ?ks = "[Str (lit ''A1''), Str (lit ''A2''), Str (lit ''Z9'')]"
  let ?vs = "[Str (lit ''S1''), PyNone, Str (lit ''S3'')]"
  define after where "after = df (fst (snd (add_samples (DataFrame example_table) example_plate)))"
  have ks: "map_of example_table (lit ''well_index'') = Some (ObjectDtype, ?ks)"
    by (simp add: example_table_def)
  have kd: "ObjectDtype \<noteq> Float64Dtype" by simp
  have vs: "map_of example_table (lit ''sample_id'') = Some (ObjectDtype, ?vs)"
    by (simp add: example_table_def lit_def)
  have one: "\<forall>w\<in>set (df example_plate).
      length (filter (\<lambda>r. fst r = Str (well_index w)) (zip ?ks ?vs)) \<le> 1"
    by (simp add: example_plate_def lit_def)
  note inst = add_samples_table [OF ks kd vs one, folded after_def]
  note ret = inst [THEN conjunct1]
  note same = inst [THEN conjunct2, THEN conjunct1]
  note each = inst [THEN conjunct2, THEN conjunct2, THEN conjunct1, rule_format]
  have keep: "fill_from ObjectDtype c = c" for c
    using inst [THEN conjunct2, THEN conjunct2, THEN conjunct2, THEN conjunct2, THEN conjunct2]
    by simp
  have w0: "df example_plate ! 0 = \<lparr>plate_name = None, plate_id = None, well_index = lit ''A1'',
      row = lit ''A'', column = 1, sample_id = PyNone\<rparr>"
    and w1: "df example_plate ! 1 = \<lparr>plate_name = None, plate_id = None, well_index = lit ''A2'',
      row = lit ''A'', column = 2, sample_id = Str (lit ''S7'')\<rparr>"
    and w2: "df example_plate ! 2 = \<lparr>plate_name = None, plate_id = None, well_index = lit ''A3'',
      row = lit ''A'', column = 3, sample_id = Str (lit ''S8'')\<rparr>"
    and len: "length (df example_plate) = 3"
    by (simp_all add: example_plate_def)
  have l: "0 < length (df example_plate)" "1 < length (df example_plate)"
    "2 < length (df example_plate)" by (simp_all add: len)
  have r0: "(Str (well_index (df example_plate ! 0)), Str (lit ''S1'')) \<in> set (zip ?ks ?vs)"
    unfolding w0 by simp
  have r1: "(Str (well_index (df example_plate ! 1)), PyNone) \<in> set (zip ?ks ?vs) \<and> isna PyNone"
    unfolding w1 by (simp add: isna_def)
  have r2: "Str (well_index (df example_plate ! 2)) \<notin> fst ` set (zip ?ks ?vs)"
    unfolding w2 by (simp add: lit_def)
  have a0: "after ! 0 = \<lparr>plate_name = None, plate_id = None, well_index = lit ''A1'',
      row = lit ''A'', column = 1, sample_id = Str (lit ''S1'')\<rparr>"
    using each [OF l(1), THEN conjunct1, rule_format, OF r0] unfolding w0 by simp
  have a1: "after ! 1 = \<lparr>plate_name = None, plate_id = None, well_index = lit ''A2'',
      row = lit ''A'', column = 2, sample_id = Str (lit ''S7'')\<rparr>"
    using each [OF l(2), THEN conjunct2, THEN conjunct1, rule_format, OF r1]
    unfolding w1 keep by simp
  have a2: "after ! 2 = \<lparr>plate_name = None, plate_id = None, well_index = lit ''A3'',
      row = lit ''A'', column = 3, sample_id = Str (lit ''S8'')\<rparr>"
    using each [OF l(3), THEN conjunct2, THEN conjunct2, rule_format, OF r2]
    unfolding w2 keep by simp
  from same len have "length after = 3" by simp
  with ret a0 a1 a2 show ?thesis unfolding after_def by blast
qed

text \<open>
  The claim as stated, for every table with both columns, fails on a table that lists A1
  twice: the row with S2 matches the well A1, yet the record at the position of A1 has S1;
  the merge made two records of the well, one for each row.
\<close>

theorem add_samples_table_counterexample:
  "map_of duplicate_table (lit ''well_index'') =
     Some (ObjectDtype, [Str (lit ''A1''), Str (lit ''A1'')])
   \<and> map_of duplicate_table (lit ''sample_id'') =
     Some (ObjectDtype, [Str (lit ''S1''), Str (lit ''S2'')])
   \<and> well_index (df example_plate ! 0) = lit ''A1''
   \<and> df (fst (snd (add_samples (DataFrame duplicate_table) example_plate))) ! 0 \<noteq>
        (df example_plate ! 0)\<lparr>sample_id := Str (lit ''S2'')\<rparr>
   \<and> map sample_id (df (fst (snd (add_samples (DataFrame duplicate_table) example_plate)))) =
        [Str (lit ''S1''), Str (lit ''S2''), Str (lit ''S7''), Str (lit ''S8'')]"
  by (simp add: duplicate_table_def example_plate_def merge_left_def fillna_new_def
      fill_from_def isna_def lit_def)

text \<open>
  Two more inputs on which the claim as stated fails. A table whose \<open>well_index\<close> column
  is \<open>float64\<close> has both columns, yet \<open>pd.merge\<close> raises and the plate stays as it was.
  With a source of the \<open>str\<close> dtype the unset well A1, which has no row, is no longer
  \<open>None\<close> but \<open>NaN\<close>; the string of A3, whose row has a null, is kept.
\<close>

lemma add_samples_float_key_raises:
  "add_samples (DataFrame float_key_table) example_plate =
     (Raised (ValueError ''You are trying to merge on str and float64 columns''),
      example_plate, [])"
  by (simp add: float_key_table_def lit_def)

lemma add_samples_str_table_nan:
  "map sample_id (df example_plate) = [PyNone, Str (lit ''S7''), Str (lit ''S8'')]
   \<and> map sample_id (df (fst (snd (add_samples (DataFrame str_table) example_plate)))) =
        [NaN, Str (lit ''S5''), Str (lit ''S8'')]"
  by (simp add: str_table_def example_plate_def merge_left_def fillna_new_def
      fill_from_def isna_def lit_def)

text \<open>
  Claim C4 at a failing input. On the plate with the wells A1, A2, A3, a table that lists
  A1 twice makes \<open>add_samples\<close> return with four records, A1 twice, and
  \<open>print_matrix\<close> then raises, because four records do not reshape to 1 by 3.
\<close>

theorem add_samples_duplicate_rows:
  "fst (add_samples (DataFrame duplicate_table) example_plate) = Returned
   \<and> map well_index (df example_plate) = [lit ''A1'', lit ''A2'', lit ''A3'']
   \<and> map well_index (df (fst (snd (add_samples (DataFrame duplicate_table) example_plate)))) =
        [lit ''A1'', lit ''A1'', lit ''A2'', lit ''A3'']
   \<and> fst (print_matrix (fst (snd (add_samples (DataFrame duplicate_table) example_plate)))) =
        Raised (ValueError ''cannot reshape array'')"
  by (simp add: duplicate_table_def example_plate_def merge_left_def fillna_new_def lit_def
      print_matrix_def reshape_def)

subsection \<open>print_matrix\<close>






lemma center_shape:
  assumes "length s \<le> w"
  shows "\<exists>l r. center s w = replicate l 32 @ s @ replicate r 32 \<and> l + length s + r = w
          \<and> (r = l \<or> r = l + 1)"
proof (cases "w \<le> length s")
  case True
  with assms have "center s w = replicate 0 32 @ s @ replicate 0 32 \<and> 0 + length s + 0 = w"
    by (simp add: center_def)
  then show ?thesis by blast
next
  case False
  define t where "t = w - length s"
  from False have "center s w = replicate (t div 2) 32 @ s @ replicate (t - t div 2) 32"
    by (simp add: center_def t_def)
  moreover have "t div 2 + length s + (t - t div 2) = w" using assms by (simp add: t_def)
  moreover have "t - t div 2 = t div 2 \<or> t - t div 2 = t div 2 + 1" by presburger
  ultimately show ?thesis by blast
qed






text \<open>A \<open>NaN\<close> cell is not the placeholder: it prints as the centered text \<open>nan\<close>.\<close>

lemma cell_field_nan: "cell_field NaN = lit ''   nan    ''"
proof -
  have "center (lit ''nan'') 10 = lit ''   nan    ''" by code_simp
  then show ?thesis by (simp add: cell_field_def)
qed


lemma replicate_step: "replicate (numeral k) (x::nat) = [x] @ replicate (pred_numeral k) x"
  unfolding numeral_eq_Suc by simp

lemmas render_simps =
  print_matrix_def reshape_def header_line_def row_line_def cell_field_def center_def
  fmt_opt_def chr_def lit_def str.simps upt_rec replicate_step




lemma make_frame_2_3:
  "make_frame 2 3 None None =
     Inr [\<lparr>plate_name = None, plate_id = None, well_index = lit ''A1'', row = lit ''A'',
           column = 1, sample_id = PyNone\<rparr>,
          \<lparr>plate_name = None, plate_id = None, well_index = lit ''B1'', row = lit ''B'',
           column = 1, sample_id = PyNone\<rparr>,
          \<lparr>plate_name = None, plate_id = None, well_index = lit ''A2'', row = lit ''A'',
           column = 2, sample_id = PyNone\<rparr>,
          \<lparr>plate_name = None, plate_id = None, well_index = lit ''B2'', row = lit ''B'',
           column = 2, sample_id = PyNone\<rparr>,
          \<lparr>plate_name = None, plate_id = None, well_index = lit ''A3'', row = lit ''A'',
           column = 3, sample_id = PyNone\<rparr>,
          \<lparr>plate_name = None, plate_id = None, well_index = lit ''B3'', row = lit ''B'',
           column = 3, sample_id = PyNone\<rparr>]"
proof -
  have "(2::nat) \<le> 1114047" by simp
  from make_frame_ok [OF this, of 3 None None] show ?thesis
    by (simp add: upt_rec grid_well_def str.simps lit_def)
qed

text \<open>
  Claim C1 at a failing input. \<open>Microplate(rows=2, cols=3, sample_ids={"B1": "S002"})\<close>
  holds the wells in the order A1, B1, A2, B2, A3, B3; \<open>reshape(2, 3)\<close> cuts this sequence
  into the rows A1 B1 A2 and B2 A3 B3, so \<open>print_matrix\<close> shows the sample of B1 on the
  line of row A under column 2, and a dash on the line of row B under column 1.
\<close>

theorem print_matrix_misplaces_wells:
  "(case post_init 2 3 None None (Dict [lit ''B1'' \<mapsto> lit ''S002'']) of
      (Inl e, out) \<Rightarrow> (Raised e, out)
    | (Inr self, out) \<Rightarrow> print_matrix self) =
     (Returned,
      [lit ''Plate Name: None'',
       lit ''Plate ID: None'',
       lit ''       1          2          3     '',
       lit ''A      -         S002        -     '',
       lit ''B      -          -          -     ''])"
  unfolding post_init_def make_frame_2_3
  by (simp add: assign_dict_def check_uniform_def render_simps)

subsection \<open>add_samples without a usable source\<close>

text \<open>
  Claim C8. \<open>add_samples(None)\<close> returns without raising and leaves the plate, and so
  every \<open>sample_id\<close>, as it was; it prints one line.
\<close>

theorem add_samples_absent_noop:
  "add_samples Absent self = (Returned, self, [lit ''No samples provided.''])"
  by simp

text \<open>
  Claim C7, as the code has it. For a value that is neither \<open>None\<close>, nor a \<open>dict\<close>, nor a
  \<open>DataFrame\<close>, \<open>add_samples\<close> raises nothing: it prints a message, returns, and leaves
  the plate as it was.
\<close>

theorem add_samples_other_prints:
  "add_samples Other self =
     (Returned, self, [lit ''Invalid input type. Expected a dictionary or DataFrame.''])"
  by simp

text \<open>The claim as stated fails on the one-well plate: the call returns.\<close>

theorem add_samples_other_raises_counterexample:
  "\<not> (\<exists>e. fst (add_samples Other
        \<lparr>rows = 1, cols = 1, name = None, ident = None, sample_ids = Absent,
         df = [\<lparr>plate_name = None, plate_id = None, well_index = lit ''A1'', row = lit ''A'',
                column = 1, sample_id = PyNone\<rparr>]\<rparr>) = Raised e)"
  by simp

text \<open>
  Claim C6. A table that lacks the column \<open>well_index\<close> or the column \<open>sample_id\<close> makes
  \<open>add_samples\<close> raise the \<open>ValueError\<close> of the column test, with the plate exactly
  as it was before the call and nothing printed.
\<close>

theorem add_samples_missing_column:
  assumes "lit ''well_index'' \<notin> fst ` set t \<or> lit ''sample_id'' \<notin> fst ` set t"
  shows "add_samples (DataFrame t) self =
           (Raised (ValueError ''DataFrame must have 'well_index' and 'sample_id' columns.''),
            self, [])"
  using assms by auto

theorem add_samples_missing_column_witness:
  "add_samples (DataFrame [(lit ''well_index'', ObjectDtype, [Str (lit ''A1'')])])
       \<lparr>rows = 1, cols = 1, name = None, ident = None, sample_ids = Absent,
        df = [\<lparr>plate_name = None, plate_id = None, well_index = lit ''A1'', row = lit ''A'',
               column = 1, sample_id = Str (lit ''S9'')\<rparr>]\<rparr> =
     (Raised (ValueError ''DataFrame must have 'well_index' and 'sample_id' columns.''),
      \<lparr>rows = 1, cols = 1, name = None, ident = None, sample_ids = Absent,
        df = [\<lparr>plate_name = None, plate_id = None, well_index = lit ''A1'', row = lit ''A'',
               column = 1, sample_id = Str (lit ''S9'')\<rparr>]\<rparr>, [])"
proof -
  have "lit ''well_index'' \<notin> fst ` set [(lit ''well_index'', ObjectDtype, [Str (lit ''A1'')])]
        \<or> lit ''sample_id'' \<notin> fst ` set [(lit ''well_index'', ObjectDtype, [Str (lit ''A1'')])]"
    by (simp add: lit_def)
  from add_samples_missing_column [OF this] show ?thesis .
qed

end
